theory Spec2Isabelle
  imports Complex_Main "HOL-Library.Multiset"
begin

section \<open>Vector utilities (package utils)\<close>

text \<open>
  The Go code computes on \<open>float32\<close>.  The arithmetic of that type is a primitive of the
  language, so the embedding takes it as a parameter: a record of the operations the code
  uses, over an arbitrary carrier \<open>'f\<close>.  Every definition below is the source function
  with \<open>+\<close>, \<open>*\<close>, \<open>/\<close>, \<open>==\<close>, \<open>>\<close>, \<open>>=\<close> and the square root replaced by the
  fields of that record; nothing is assumed about them unless a theorem says so.
\<close>

record 'f arith =
  fzero :: 'f
  fadd :: "'f \<Rightarrow> 'f \<Rightarrow> 'f"
  fmul :: "'f \<Rightarrow> 'f \<Rightarrow> 'f"
  fdiv :: "'f \<Rightarrow> 'f \<Rightarrow> 'f"
  fsqrt :: "'f \<Rightarrow> 'f"
  feq :: "'f \<Rightarrow> 'f \<Rightarrow> bool"
  fgt :: "'f \<Rightarrow> 'f \<Rightarrow> bool"
  fge :: "'f \<Rightarrow> 'f \<Rightarrow> bool"
  SimilarityThreshold :: 'f

text \<open>
  The two errors of the package are \<open>fmt.Errorf\<close> values told apart by their text:
  \<open>"vectors cannot be empty"\<close> and \<open>"vectors must have the same dimension"\<close>.
\<close>

datatype vec_error = EmptyVector | DimensionMismatch

text \<open>\<open>dotProduct\<close>: the length check, then the accumulating loop from the zero value.\<close>

definition dotProduct :: "'f arith \<Rightarrow> 'f list \<Rightarrow> 'f list \<Rightarrow> vec_error + 'f" where
  "dotProduct ar vec1 vec2 =
     (if length vec1 \<noteq> length vec2 then Inl DimensionMismatch
      else Inr (foldl (\<lambda>product (x, y). fadd ar product (fmul ar x y)) (fzero ar) (zip vec1 vec2)))"

text \<open>\<open>magnitude\<close>: the sum of squares, then the square root.\<close>

definition magnitude :: "'f arith \<Rightarrow> 'f list \<Rightarrow> 'f" where
  "magnitude ar vec = fsqrt ar (foldl (\<lambda>sumOfSquares val. fadd ar sumOfSquares (fmul ar val val)) (fzero ar) vec)"

text \<open>\<open>CosineSimilarity\<close>, check by check in the order of the source.\<close>

definition CosineSimilarity :: "'f arith \<Rightarrow> 'f list \<Rightarrow> 'f list \<Rightarrow> vec_error + 'f" where
  "CosineSimilarity ar vec1 vec2 =
     (if length vec1 = 0 \<or> length vec2 = 0 then Inl EmptyVector
      else case dotProduct ar vec1 vec2 of
             Inl err \<Rightarrow> Inl err
           | Inr dp \<Rightarrow>
               (let mag1 = magnitude ar vec1; mag2 = magnitude ar vec2
                in if feq ar mag1 (fzero ar) \<or> feq ar mag2 (fzero ar) then Inr (fzero ar)
                   else Inr (fdiv ar dp (fmul ar mag1 mag2))))"

text \<open>Exact arithmetic on the reals, an instance of the parameter used at concrete inputs.\<close>

definition real_arith :: "real arith" where
  "real_arith = \<lparr> fzero = 0, fadd = (+), fmul = (*), fdiv = (/), fsqrt = sqrt,
                  feq = (=), fgt = (\<lambda>x y. y < x), fge = (\<lambda>x y. y \<le> x),
                  SimilarityThreshold = 7 / 10 \<rparr>"

section \<open>Strings\<close>

text \<open>
  A Go string is a sequence of bytes, here a \<open>char list\<close>.  \<open>strings.TrimSpace\<close> removes
  white space at both ends; the model covers the white space of Go's ASCII table
  (tab, line feed, vertical tab, form feed, carriage return, space), so it is the library
  function on ASCII text.  \<open>strings.ToLower\<close> likewise lower-cases the ASCII letters.
\<close>

definition isSpace :: "char \<Rightarrow> bool" where
  "isSpace c \<longleftrightarrow> c \<in> set [CHR 0x09, CHR 0x0A, CHR 0x0B, CHR 0x0C, CHR 0x0D, CHR 0x20]"

definition TrimSpace :: "string \<Rightarrow> string" where
  "TrimSpace s = rev (dropWhile isSpace (rev (dropWhile isSpace s)))"






definition newline :: char where
  "newline = CHR 0x0A"

section \<open>Data model (package store, models.go)\<close>

text \<open>
  \<open>int64\<close> identifiers are integers (no arithmetic is done on them), \<open>time.Time\<close> is a
  natural number, a nullable \<open>*string\<close> is an option.  The structs share field names in Go;
  here each field carries the initial of its struct.
\<close>

record Chat =
  cID :: string
  cUserID :: int
  cTitle :: "string option"
  cCreatedAt :: nat

record Message =
  mID :: string
  mChatID :: string
  mSender :: string
  mContent :: string
  mTimestamp :: nat
  mNegativeFeedback :: bool

record 'f DataChunk =
  dID :: int
  dContent :: string
  dEmbedding :: "'f list"
  dEmbeddingJSON :: string

record 'f ScoredChunk =
  Chunk :: "'f DataChunk"
  Similarity :: 'f

section \<open>The environment: gateways, database faults, clock, library sort\<close>

text \<open>
  What the program calls but does not contain is a parameter.
  \<^item> The Gemini client: \<open>EmbedContent\<close> and \<open>SendMessage\<close> answer with a transport error
    or a response; the natural number is the count of gateway calls made before, so that
    two calls with the same argument may answer differently.
  \<^item> The SQLite driver: \<open>db_fault n\<close> says whether the \<open>n\<close>-th database call
    (\<open>Prepare\<close>, \<open>Exec\<close>, \<open>Query\<close> with its scan) fails, for whatever reason.
  \<^item> \<open>uuid.NewString\<close> and \<open>time.Now\<close>, indexed by the number of earlier reads.
  \<^item> \<open>sort.Slice\<close>, the library's in-place sort, documented as not stable: a function
    from the comparison and the slice to the slice afterwards.
  \<^item> \<open>os.ReadFile\<close> and \<open>json.Marshal\<close> on an embedding.
\<close>

datatype Part = Text string | Blob

record genai_Content =
  Role :: string
  Parts :: "Part list"

datatype 'a api_result = ApiError | ApiOk 'a

type_synonym 'a sorter = "('a \<Rightarrow> 'a \<Rightarrow> bool) \<Rightarrow> 'a list \<Rightarrow> 'a list"

record 'f env =
  float32 :: "'f arith"
  sort_Slice :: "'f ScoredChunk sorter"
  dataChunks :: "'f DataChunk list"
  db_fault :: "nat \<Rightarrow> bool"
  uuid_NewString :: "nat \<Rightarrow> string"
  time_Now :: "nat \<Rightarrow> nat"
  EmbedContent :: "nat \<Rightarrow> string \<Rightarrow> 'f list option api_result"
  SendMessage :: "nat \<Rightarrow> genai_Content list \<Rightarrow> genai_Content option list option api_result"
  ReadFile :: "string \<Rightarrow> string option"
  json_Marshal :: "'f list \<Rightarrow> string option"

text \<open>
  The field \<open>dataChunks\<close> is the cache of \<open>RAGService\<close>, filled once by \<open>NewRAGService\<close>.
  A response of \<open>SendMessage\<close> is \<open>None\<close> for a nil pointer, else its candidates, each with
  its content (\<open>None\<close> for nil).
\<close>

datatype gateway_call = EmbedCall string | ChatCall "genai_Content list"

record 'f world =
  chats :: "Chat list"
  messages :: "Message list"
  data_chunks :: "'f DataChunk list"
  chunk_seq :: int
  db_calls :: nat
  ticks :: nat
  gateway_log :: "gateway_call list"
  goroutines :: "(string \<times> int \<times> string) list"

text \<open>
  The tables are lists in insertion order; \<open>chunk_seq\<close> is the AUTOINCREMENT sequence of
  \<open>data_chunks\<close>; \<open>gateway_log\<close> lists the gateway calls made; \<open>goroutines\<close> lists the
  title derivations started with \<open>go s.generateAndSaveChatTitle(chatID, userID, basis)\<close>,
  which the model records and does not run.
\<close>

datatype error =
    VecError vec_error
  | EmbeddingRequestFailed
  | NoEmbeddingData
  | FailedQueryEmbedding error
  | PromptHistoryEmpty
  | LastMessageNotUser
  | SendMessageFailed
  | FailedLLMCompletion error
  | DbError
  | FailedCreateChat error
  | FailedVerifyChat error
  | ChatNotFound
  | FailedStoreUserMessage error
  | FailedStoreModelMessage error
  | FailedReadFile
  | FailedClearChunks error
  | FailedMarshal

definition db_call :: "'f env \<Rightarrow> 'f world \<Rightarrow> bool \<times> 'f world" where
  "db_call e w = (\<not> db_fault e (db_calls w), w\<lparr>db_calls := Suc (db_calls w)\<rparr>)"

definition new_uuid :: "'f env \<Rightarrow> 'f world \<Rightarrow> string \<times> 'f world" where
  "new_uuid e w = (uuid_NewString e (ticks w), w\<lparr>ticks := Suc (ticks w)\<rparr>)"

definition now :: "'f env \<Rightarrow> 'f world \<Rightarrow> nat \<times> 'f world" where
  "now e w = (time_Now e (ticks w), w\<lparr>ticks := Suc (ticks w)\<rparr>)"

section \<open>LLMService (gateway wrappers)\<close>

definition GetEmbedding :: "'f env \<Rightarrow> 'f world \<Rightarrow> string \<Rightarrow> (error + 'f list) \<times> 'f world" where
  "GetEmbedding e w text =
     (let w' = w\<lparr>gateway_log := gateway_log w @ [EmbedCall text]\<rparr>
      in case EmbedContent e (length (gateway_log w)) text of
           ApiError \<Rightarrow> (Inl EmbeddingRequestFailed, w')
         | ApiOk None \<Rightarrow> (Inl NoEmbeddingData, w')
         | ApiOk (Some values) \<Rightarrow>
             if length values = 0 then (Inl NoEmbeddingData, w') else (Inr values, w'))"

definition msg_no_candidates :: string where
  "msg_no_candidates = ''I'' @ [CHR 0x27] @ ''m sorry, I couldn'' @ [CHR 0x27] @ ''t generate a response at this time. Please try again.''"

definition msg_non_text :: string where
  "msg_non_text = ''I received an empty or non-text response, please try rephrasing your question.''"

fun responseText :: "Part list \<Rightarrow> string" where
  "responseText [] = []"
| "responseText (Text txt # parts) = txt @ responseText parts"
| "responseText (Blob # parts) = responseText parts"

definition GetChatCompletion ::
  "'f env \<Rightarrow> 'f world \<Rightarrow> genai_Content list \<Rightarrow> (error + string) \<times> 'f world" where
  "GetChatCompletion e w promptHistory =
     (if length promptHistory = 0 then (Inl PromptHistoryEmpty, w)
      else if Role (last promptHistory) \<noteq> ''user'' then (Inl LastMessageNotUser, w)
      else
        let w' = w\<lparr>gateway_log := gateway_log w @ [ChatCall promptHistory]\<rparr>
        in case SendMessage e (length (gateway_log w)) promptHistory of
             ApiError \<Rightarrow> (Inl SendMessageFailed, w')
           | ApiOk None \<Rightarrow> (Inr msg_no_candidates, w')
           | ApiOk (Some []) \<Rightarrow> (Inr msg_no_candidates, w')
           | ApiOk (Some (None # _)) \<Rightarrow> (Inr msg_no_candidates, w')
           | ApiOk (Some (Some content # _)) \<Rightarrow>
               if length (Parts content) = 0 then (Inr msg_no_candidates, w')
               else if length (responseText (Parts content)) = 0 then (Inr msg_non_text, w')
               else (Inr (responseText (Parts content)), w'))"

section \<open>SQLiteStore (chats and messages)\<close>

text \<open>
  Each method makes the database calls of the source in their order and stops at the
  first one that fails.  \<open>ORDER BY timestamp DESC\<close> is the table sorted by timestamp,
  newest first (SQL leaves the order of rows with equal timestamps open; the model puts
  the later row first).
\<close>

definition store_CreateChat ::
  "'f env \<Rightarrow> 'f world \<Rightarrow> int \<Rightarrow> string option \<Rightarrow> (error + Chat) \<times> 'f world" where
  "store_CreateChat e w userID title =
     (let (chatID, w1) = new_uuid e w;
          (prepared, w2) = db_call e w1
      in if \<not> prepared then (Inl DbError, w2)
         else
           let (t, w3) = now e w2;
               (executed, w4) = db_call e w3
           in if \<not> executed then (Inl DbError, w4)
              else
                let chat = \<lparr>cID = chatID, cUserID = userID, cTitle = title, cCreatedAt = t\<rparr>
                in (Inr chat, w4\<lparr>chats := chats w4 @ [chat]\<rparr>))"

definition GetChatByID ::
  "'f env \<Rightarrow> 'f world \<Rightarrow> string \<Rightarrow> int \<Rightarrow> (error + Chat option) \<times> 'f world" where
  "GetChatByID e w chatID userID =
     (let (ok, w1) = db_call e w
      in if \<not> ok then (Inl DbError, w1)
         else (Inr (find (\<lambda>c. cID c = chatID \<and> cUserID c = userID) (chats w1)), w1))"

text \<open>
  \<open>CreateMessage\<close> writes the identifier and the timestamp into the message it is given
  before it touches the database, so the message comes back in both cases.
\<close>

definition CreateMessage ::
  "'f env \<Rightarrow> 'f world \<Rightarrow> Message \<Rightarrow> (error option \<times> Message) \<times> 'f world" where
  "CreateMessage e w msg =
     (let (newID, w1) = new_uuid e w;
          (t, w2) = now e w1;
          msg' = msg\<lparr>mID := newID, mTimestamp := t\<rparr>;
          (prepared, w3) = db_call e w2
      in if \<not> prepared then ((Some DbError, msg'), w3)
         else
           let (executed, w4) = db_call e w3
           in if \<not> executed then ((Some DbError, msg'), w4)
              else ((None, msg'), w4\<lparr>messages := messages w4 @ [msg']\<rparr>))"

definition GetLastNMessagesByChatID ::
  "'f env \<Rightarrow> 'f world \<Rightarrow> string \<Rightarrow> nat \<Rightarrow> (error + Message list) \<times> 'f world" where
  "GetLastNMessagesByChatID e w chatID n =
     (let (ok, w1) = db_call e w
      in if \<not> ok then (Inl DbError, w1)
         else (Inr (take n (rev (sort_key mTimestamp
                                   (filter (\<lambda>m. mChatID m = chatID) (messages w1))))), w1))"

section \<open>RAGService\<close>

definition NumRelevantChunks :: nat where
  "NumRelevantChunks = 3"

text \<open>The scoring loop of \<open>GetRelevantContext\<close>: one pass over the cache, in index order.\<close>

fun scoreChunks :: "'f arith \<Rightarrow> 'f list \<Rightarrow> 'f DataChunk list \<Rightarrow> 'f ScoredChunk list" where
  "scoreChunks a queryEmbedding [] = []"
| "scoreChunks a queryEmbedding (chunk # rest) =
     (if length (dEmbedding chunk) = 0 then scoreChunks a queryEmbedding rest
      else case CosineSimilarity a queryEmbedding (dEmbedding chunk) of
             Inl err \<Rightarrow> scoreChunks a queryEmbedding rest
           | Inr similarity \<Rightarrow>
               if fge a similarity (SimilarityThreshold a)
               then \<lparr>Chunk = chunk, Similarity = similarity\<rparr> # scoreChunks a queryEmbedding rest
               else scoreChunks a queryEmbedding rest)"

text \<open>The comparison handed to \<open>sort.Slice\<close>, and the sorted slice.\<close>

definition bySimilarity :: "'f arith \<Rightarrow> 'f ScoredChunk \<Rightarrow> 'f ScoredChunk \<Rightarrow> bool" where
  "bySimilarity a x y \<longleftrightarrow> fgt a (Similarity x) (Similarity y)"

definition rankChunks :: "'f env \<Rightarrow> 'f list \<Rightarrow> 'f ScoredChunk list" where
  "rankChunks e queryEmbedding =
     sort_Slice e (bySimilarity (float32 e)) (scoreChunks (float32 e) queryEmbedding (dataChunks e))"

text \<open>
  The loop that fills the string builder: it stops at the end of the slice or when
  \<open>retrievedCount\<close> reaches \<open>NumRelevantChunks\<close>, and returns the text and the count.
\<close>

fun buildContext :: "'f ScoredChunk list \<Rightarrow> nat \<Rightarrow> string \<Rightarrow> string \<times> nat" where
  "buildContext [] retrievedCount builder = (builder, retrievedCount)"
| "buildContext (sc # rest) retrievedCount builder =
     (if retrievedCount < NumRelevantChunks
      then buildContext rest (Suc retrievedCount)
             (builder @ dContent (Chunk sc) @ [newline, newline])
      else (builder, retrievedCount))"

definition GetRelevantContext ::
  "'f env \<Rightarrow> 'f world \<Rightarrow> string \<Rightarrow> (error + string) \<times> 'f world" where
  "GetRelevantContext e w query =
     (if length (dataChunks e) = 0 then (Inr [], w)
      else case GetEmbedding e w query of
             (Inl err, w1) \<Rightarrow> (Inl (FailedQueryEmbedding err), w1)
           | (Inr queryEmbedding, w1) \<Rightarrow>
               let (built, retrievedCount) = buildContext (rankChunks e queryEmbedding) 0 []
               in if retrievedCount = 0 then (Inr [], w1)
                  else (Inr (TrimSpace built), w1))"

definition prompt_with_context :: "string \<Rightarrow> string \<Rightarrow> string" where
  "prompt_with_context relevantContext userQuery =
     ''Based on our previous conversation and the following potentially relevant context from GWI market research data:''
     @ [newline, newline] @ ''--- CONTEXT START ---'' @ [newline] @ relevantContext @ [newline]
     @ ''--- CONTEXT END ---'' @ [newline, newline] @ ''Now, please answer my question: '' @ userQuery"

definition prompt_without_context :: "string \<Rightarrow> string" where
  "prompt_without_context userQuery =
     ''Based on our previous conversation (if any), and noting that I couldn'' @ [CHR 0x27]
     @ ''t find specific GWI documents for your current question, please answer: '' @ userQuery"

definition GenerateResponse ::
  "'f env \<Rightarrow> 'f world \<Rightarrow> string \<Rightarrow> int \<Rightarrow> string \<Rightarrow> (error + string) \<times> 'f world" where
  "GenerateResponse e w chatID userID userQuery =
     (let (hist, w1) = GetLastNMessagesByChatID e w chatID 5;
          chatHistoryMsgs = (case hist of Inl err \<Rightarrow> [] | Inr msgs \<Rightarrow> msgs);
          (ctx, w2) = GetRelevantContext e w1 userQuery;
          relevantContext = (case ctx of Inl err \<Rightarrow> [] | Inr c \<Rightarrow> c);
          finalUserContent =
            (if relevantContext \<noteq> [] then prompt_with_context relevantContext userQuery
             else prompt_without_context userQuery);
          geminiChatHistory =
            map (\<lambda>msg. \<lparr>Role = mSender msg, Parts = [Text (mContent msg)]\<rparr>) chatHistoryMsgs
            @ [\<lparr>Role = ''user'', Parts = [Text finalUserContent]\<rparr>]
      in case GetChatCompletion e w2 geminiChatHistory of
           (Inl err, w3) \<Rightarrow> (Inl (FailedLLMCompletion err), w3)
         | (Inr modelResponse, w3) \<Rightarrow> (Inr modelResponse, w3))"

section \<open>ChatService\<close>

definition msg_initial_issue :: string where
  "msg_initial_issue = ''I encountered an issue trying to respond. Please try again.''"

definition msg_fallback :: string where
  "msg_fallback = ''I'' @ [CHR 0x27] @ ''m sorry, I encountered an error while processing your request.''"

definition new_message :: "string \<Rightarrow> string \<Rightarrow> string \<Rightarrow> Message" where
  "new_message chatID sender content =
     \<lparr>mID = [], mChatID = chatID, mSender = sender, mContent = content,
      mTimestamp = 0, mNegativeFeedback = False\<rparr>"

definition spawn_title :: "'f world \<Rightarrow> string \<Rightarrow> int \<Rightarrow> string \<Rightarrow> 'f world" where
  "spawn_title w chatID userID basisContent =
     w\<lparr>goroutines := goroutines w @ [(chatID, userID, basisContent)]\<rparr>"

definition CreateChat ::
  "'f env \<Rightarrow> 'f world \<Rightarrow> int \<Rightarrow> string option \<Rightarrow> (error + Chat \<times> Message list) \<times> 'f world" where
  "CreateChat e w userID firstMessageContent =
     (case store_CreateChat e w userID None of
        (Inl err, w1) \<Rightarrow> (Inl (FailedCreateChat err), w1)
      | (Inr chat, w1) \<Rightarrow>
          if firstMessageContent \<noteq> None \<and> the firstMessageContent \<noteq> [] then
            (case CreateMessage e w1 (new_message (cID chat) ''user'' (the firstMessageContent)) of
               ((Some err, userMsg), w2) \<Rightarrow> (Inr (chat, []), w2)
             | ((None, userMsg), w2) \<Rightarrow>
                 let (gen, w3) = GenerateResponse e w2 (cID chat) userID (mContent userMsg);
                     modelContent = (case gen of Inl err \<Rightarrow> msg_initial_issue | Inr c \<Rightarrow> c);
                     ((stored, modelMsg), w4) =
                        CreateMessage e w3 (new_message (cID chat) ''model'' modelContent);
                     msgs = (case stored of Some err \<Rightarrow> [userMsg] | None \<Rightarrow> [userMsg, modelMsg])
                 in (Inr (chat, msgs), spawn_title w4 (cID chat) userID (mContent userMsg)))
          else (Inr (chat, []), w1))"

text \<open>
  The end of \<open>PostMessage\<close>: for a chat without a title, the first message from the user
  among the last two starts a title derivation, when its content is not empty.
\<close>

definition maybe_spawn_title :: "'f env \<Rightarrow> 'f world \<Rightarrow> Chat \<Rightarrow> string \<Rightarrow> int \<Rightarrow> 'f world" where
  "maybe_spawn_title e w chat chatID userID =
     (if cTitle chat = None \<or> the (cTitle chat) = [] then
        let (r, w1) = GetLastNMessagesByChatID e w chatID 2;
            msgs = (case r of Inl err \<Rightarrow> [] | Inr ms \<Rightarrow> ms)
        in if length msgs \<ge> 1 then
             let firstUserMessageContent =
                   (case find (\<lambda>m. mSender m = ''user'') msgs of None \<Rightarrow> [] | Some m \<Rightarrow> mContent m)
             in if firstUserMessageContent \<noteq> [] then spawn_title w1 chatID userID firstUserMessageContent
                else w1
           else w1
      else w)"

definition PostMessage ::
  "'f env \<Rightarrow> 'f world \<Rightarrow> string \<Rightarrow> int \<Rightarrow> string \<Rightarrow> (error + Message) \<times> 'f world" where
  "PostMessage e w chatID userID userContent =
     (case GetChatByID e w chatID userID of
        (Inl err, w1) \<Rightarrow> (Inl (FailedVerifyChat err), w1)
      | (Inr None, w1) \<Rightarrow> (Inl ChatNotFound, w1)
      | (Inr (Some chat), w1) \<Rightarrow>
          (case CreateMessage e w1 (new_message chatID ''user'' userContent) of
             ((Some err, userMsg), w2) \<Rightarrow> (Inl (FailedStoreUserMessage err), w2)
           | ((None, userMsg), w2) \<Rightarrow>
               let (gen, w3) = GenerateResponse e w2 chatID userID userContent;
                   modelContent = (case gen of Inl err \<Rightarrow> msg_fallback | Inr c \<Rightarrow> c)
               in (case CreateMessage e w3 (new_message chatID ''model'' modelContent) of
                     ((Some err, modelMessage), w4) \<Rightarrow> (Inl (FailedStoreModelMessage err), w4)
                   | ((None, modelMessage), w4) \<Rightarrow>
                       (Inr modelMessage, maybe_spawn_title e w4 chat chatID userID))))"

section \<open>Ingestion (SQLiteStore.IngestDataFromFile)\<close>






section \<open>Two sorts that meet the contract of sort.Slice\<close>

text \<open>
  An insertion sort that moves each element left while the comparison holds (it keeps
  equal elements in order), and the same sort run on the reversed slice (it reverses
  them).  Both return the slice permuted and ordered; they are the instances of the
  library sort used at concrete inputs.
\<close>

fun insertLeft :: "('a \<Rightarrow> 'a \<Rightarrow> bool) \<Rightarrow> 'a \<Rightarrow> 'a list \<Rightarrow> 'a list" where
  "insertLeft lt x [] = [x]"
| "insertLeft lt x (y # ys) = (if lt x y then y # insertLeft lt x ys else x # y # ys)"

definition insertionSort :: "'a sorter" where
  "insertionSort lt xs = rev (foldl (\<lambda>sortedRev x. insertLeft lt x sortedRev) [] xs)"

definition reversingSort :: "'a sorter" where
  "reversingSort lt xs = insertionSort lt (rev xs)"

text \<open>
  The contract of the library sort at one call: the slice afterwards is the slice before,
  permuted, and no element is followed by one that the comparison puts before it.
\<close>

definition sort_Slice_post :: "'a sorter \<Rightarrow> ('a \<Rightarrow> 'a \<Rightarrow> bool) \<Rightarrow> 'a list \<Rightarrow> bool" where
  "sort_Slice_post srt lt xs \<longleftrightarrow>
     mset (srt lt xs) = mset xs \<and> sorted_wrt (\<lambda>x y. \<not> lt y x) (srt lt xs)"

section \<open>Notions used to state the properties\<close>

text \<open>
  A chunk is relevant to a query embedding when the scoring loop keeps it: it has an
  embedding, the similarity is computed without error, and it is at least the threshold.
\<close>

definition relevant :: "'f arith \<Rightarrow> 'f list \<Rightarrow> 'f DataChunk \<Rightarrow> bool" where
  "relevant a queryEmbedding chunk \<longleftrightarrow>
     dEmbedding chunk \<noteq> []
     \<and> (case CosineSimilarity a queryEmbedding (dEmbedding chunk) of
          Inl err \<Rightarrow> False
        | Inr s \<Rightarrow> fge a s (SimilarityThreshold a))"

text \<open>The text of the first \<open>NumRelevantChunks\<close> chunks, each followed by a blank line.\<close>

definition joinTop :: "'f ScoredChunk list \<Rightarrow> string" where
  "joinTop ranked =
     concat (map (\<lambda>sc. dContent (Chunk sc) @ [newline, newline]) (take NumRelevantChunks ranked))"


section \<open>Concrete environments\<close>

text \<open>
  A world with empty tables, and an environment without faults: exact arithmetic, the
  insertion sort, a clock that advances by one at each reading, identifiers \<open>u\<close>,
  \<open>uu\<close>, ..., an embedding gateway that answers \<open>[1, 0, 0, 0]\<close> and a generation gateway
  that answers the text \<open>ok\<close>.
\<close>

definition world0 :: "real world" where
  "world0 = \<lparr>chats = [], messages = [], data_chunks = [], chunk_seq = 0, db_calls = 0,
             ticks = 0, gateway_log = [], goroutines = []\<rparr>"

definition env0 :: "real env" where
  "env0 = \<lparr>float32 = real_arith, sort_Slice = insertionSort, dataChunks = [],
           db_fault = (\<lambda>n. False),
           uuid_NewString = (\<lambda>n. replicate (Suc n) (CHR ''u'')),
           time_Now = (\<lambda>n. n),
           EmbedContent = (\<lambda>n t. ApiOk (Some [1, 0, 0, 0])),
           SendMessage = (\<lambda>n p. ApiOk (Some [Some \<lparr>Role = ''model'', Parts = [Text ''ok'']\<rparr>])),
           ReadFile = (\<lambda>p. None),
           json_Marshal = (\<lambda>v. Some [])\<rparr>"

definition chunk :: "int \<Rightarrow> string \<Rightarrow> real list \<Rightarrow> real DataChunk" where
  "chunk i content embedding =
     \<lparr>dID = i, dContent = content, dEmbedding = embedding, dEmbeddingJSON = []\<rparr>"


text \<open>The second chunk alone: the best match scores \<open>1/10\<close>.\<close>

definition env_sky :: "real env" where
  "env_sky = env0\<lparr>dataChunks := [chunk 2 ''The sky is blue'' [1, 9, 3, 3]]\<rparr>"



text \<open>
  The two shapes of an unusable answer of the generation gateway, as \<open>GetChatCompletion\<close>
  tells them apart: no response, no candidate, no content or no part; and parts none of
  which carries text.
\<close>

definition no_candidates :: "genai_Content option list option \<Rightarrow> bool" where
  "no_candidates resp \<longleftrightarrow>
     (case resp of
        None \<Rightarrow> True
      | Some [] \<Rightarrow> True
      | Some (None # cs) \<Rightarrow> True
      | Some (Some content # cs) \<Rightarrow> Parts content = [])"

definition no_text :: "genai_Content option list option \<Rightarrow> bool" where
  "no_text resp \<longleftrightarrow>
     (case resp of
        Some (Some content # cs) \<Rightarrow> Parts content \<noteq> [] \<and> responseText (Parts content) = []
      | _ \<Rightarrow> False)"

text \<open>A chat of user 7, a world that holds it, and one that also holds two earlier messages.\<close>

definition chat1 :: Chat where
  "chat1 = \<lparr>cID = ''c1'', cUserID = 7, cTitle = None, cCreatedAt = 0\<rparr>"

definition world_chat :: "real world" where
  "world_chat = world0\<lparr>chats := [chat1]\<rparr>"

definition world_hist :: "real world" where
  "world_hist = world0\<lparr>chats := [chat1],
     messages := [\<lparr>mID = ''m1'', mChatID = ''c1'', mSender = ''user'', mContent = ''a'',
                   mTimestamp = 1, mNegativeFeedback = False\<rparr>,
                  \<lparr>mID = ''m2'', mChatID = ''c1'', mSender = ''model'', mContent = ''b'',
                   mTimestamp = 2, mNegativeFeedback = False\<rparr>],
     ticks := 3\<rparr>"

text \<open>Generation gateways that fail, that answer without a candidate, and that answer with a part that is not text.\<close>

definition env_gateway_down :: "real env" where
  "env_gateway_down = env0\<lparr>SendMessage := (\<lambda>n p. ApiError)\<rparr>"

definition env_no_candidates :: "real env" where
  "env_no_candidates = env0\<lparr>SendMessage := (\<lambda>n p. ApiOk (Some []))\<rparr>"

definition env_blob :: "real env" where
  "env_blob = env0\<lparr>SendMessage := (\<lambda>n p. ApiOk (Some [Some \<lparr>Role = ''model'', Parts = [Blob]\<rparr>]))\<rparr>"








section \<open>Properties of the vector utilities\<close>

lemma dotProduct_swap:
  assumes "\<And>x y. fmul ar x y = fmul ar y x"
  shows "dotProduct ar vec1 vec2 = dotProduct ar vec2 vec1"
proof -
  have "foldl (\<lambda>p (x, y). fadd ar p (fmul ar x y)) z (zip xs ys)
      = foldl (\<lambda>p (x, y). fadd ar p (fmul ar x y)) z (zip ys xs)" for z xs ys
  proof (induction xs arbitrary: ys z)
    case Nil
    then show ?case by simp
  next
    case (Cons x xs)
    then show ?case by (cases ys) (simp_all add: assms)
  qed
  then show ?thesis by (simp add: dotProduct_def)
qed

text \<open>
  Claim C6, as the code has it.  \<open>CosineSimilarity\<close> fails with the empty-vector error
  when either vector has length zero; it fails with the dimension error when both are
  non-empty and their lengths differ; it returns the zero value, and no error, when both
  are non-empty of equal length and the magnitude of either compares equal to zero.
  (The check for an empty vector comes first, so an empty vector against a non-empty one
  is the empty-vector error.)
\<close>

theorem CosineSimilarity_errors:
  "(length vec1 = 0 \<or> length vec2 = 0 \<longrightarrow> CosineSimilarity a vec1 vec2 = Inl EmptyVector)
   \<and> (vec1 \<noteq> [] \<and> vec2 \<noteq> [] \<and> length vec1 \<noteq> length vec2
        \<longrightarrow> CosineSimilarity a vec1 vec2 = Inl DimensionMismatch)
   \<and> (vec1 \<noteq> [] \<and> length vec1 = length vec2
        \<and> (feq a (magnitude a vec1) (fzero a) \<or> feq a (magnitude a vec2) (fzero a))
        \<longrightarrow> CosineSimilarity a vec1 vec2 = Inr (fzero a))"
  by (auto simp add: CosineSimilarity_def dotProduct_def Let_def)

theorem CosineSimilarity_errors_witness:
  "CosineSimilarity real_arith [] [1] = Inl EmptyVector
   \<and> CosineSimilarity real_arith [1] [1, 2] = Inl DimensionMismatch
   \<and> CosineSimilarity real_arith [0, 0] [1, 2] = Inr 0"
  using CosineSimilarity_errors [of "[]" "[1]" real_arith]
        CosineSimilarity_errors [of "[1]" "[1, 2]" real_arith]
        CosineSimilarity_errors [of "[0, 0]" "[1, 2]" real_arith]
  by (simp add: magnitude_def real_arith_def)

text \<open>
  Claim C6 as stated fails where the two conditions overlap: the lengths of \<open>[]\<close> and
  \<open>[1]\<close> differ, and the error is the empty-vector one, not the dimension one.
\<close>

theorem CosineSimilarity_mismatch_counterexample:
  "length ([] :: real list) \<noteq> length [1 :: real]
   \<and> CosineSimilarity real_arith [] [1] \<noteq> Inl DimensionMismatch"
  by (simp add: CosineSimilarity_def)

text \<open>
  Claim C9.  For vectors of equal non-zero length, \<open>CosineSimilarity\<close> returns a value
  in both orders and the two values are the same, for every arithmetic whose
  multiplication commutes (as that of \<open>float32\<close> does).
\<close>

theorem CosineSimilarity_symmetric:
  assumes "\<forall>x y. fmul a x y = fmul a y x"
    and "length vec1 = length vec2" and "vec1 \<noteq> []"
  shows "\<exists>s. CosineSimilarity a vec1 vec2 = Inr s \<and> CosineSimilarity a vec2 vec1 = Inr s"
proof -
  from assms(1) have swap: "dotProduct a vec1 vec2 = dotProduct a vec2 vec1"
    by (intro dotProduct_swap) simp
  from assms(2) obtain dp where dp: "dotProduct a vec1 vec2 = Inr dp"
    by (simp add: dotProduct_def)
  from assms(2,3) have ne: "vec2 \<noteq> []" by auto
  show ?thesis
    using assms(1,3) ne dp swap
    by (auto simp add: CosineSimilarity_def Let_def)
qed

theorem CosineSimilarity_symmetric_witness:
  "(\<forall>x y. fmul real_arith x y = fmul real_arith y x)
   \<and> length [1, 2 :: real] = length [3, 4 :: real]
   \<and> (\<exists>s. CosineSimilarity real_arith [1, 2] [3, 4] = Inr s
          \<and> CosineSimilarity real_arith [3, 4] [1, 2] = Inr s)"
  using CosineSimilarity_symmetric [of real_arith "[1, 2]" "[3, 4]"]
  by (simp add: real_arith_def)

section \<open>The two sorts meet the contract\<close>

text \<open>
  For a comparison that is asymmetric and whose negation is transitive (a strict weak
  order, which is what \<open>sort.Slice\<close> asks for), both sorts return the slice permuted and
  ordered; the comparison by similarity over the reals is one.
\<close>

lemma mset_insertLeft: "mset (insertLeft lt x ys) = add_mset x (mset ys)"
  by (induction ys) auto

lemma mset_insertion_fold:
  "mset (foldl (\<lambda>sortedRev x. insertLeft lt x sortedRev) acc xs) = mset acc + mset xs"
  by (induction xs arbitrary: acc) (auto simp add: mset_insertLeft)

lemma mset_insertionSort: "mset (insertionSort lt xs) = mset xs"
  by (simp add: insertionSort_def mset_insertion_fold)

lemma set_insertLeft: "set (insertLeft lt x ys) = insert x (set ys)"
  by (induction ys) auto

lemma sorted_insertLeft:
  assumes asym: "\<And>x y. lt x y \<Longrightarrow> \<not> lt y x"
    and ntrans: "\<And>x y z. \<not> lt x y \<Longrightarrow> \<not> lt y z \<Longrightarrow> \<not> lt x z"
    and "sorted_wrt (\<lambda>a b. \<not> lt a b) ys"
  shows "sorted_wrt (\<lambda>a b. \<not> lt a b) (insertLeft lt x ys)"
  using assms(3)
proof (induction ys)
  case Nil
  then show ?case by simp
next
  case (Cons y ys)
  from Cons.prems have tl: "sorted_wrt (\<lambda>a b. \<not> lt a b) ys"
    and hd: "\<forall>w\<in>set ys. \<not> lt y w"
    by simp_all
  show ?case
  proof (cases "lt x y")
    case True
    then have "\<not> lt y x" by (rule asym)
    with hd have "\<forall>w\<in>set (insertLeft lt x ys). \<not> lt y w"
      by (simp add: set_insertLeft)
    with True Cons.IH [OF tl] show ?thesis by simp
  next
    case False
    have "\<forall>w\<in>set (y # ys). \<not> lt x w"
    proof
      fix w assume "w \<in> set (y # ys)"
      then consider "w = y" | "w \<in> set ys" by auto
      then show "\<not> lt x w"
      proof cases
        case 1
        with False show ?thesis by simp
      next
        case 2
        with hd have "\<not> lt y w" by simp
        with False show ?thesis by (rule ntrans)
      qed
    qed
    with False Cons.prems show ?thesis by simp
  qed
qed

lemma sorted_insertion_fold:
  assumes asym: "\<And>x y. lt x y \<Longrightarrow> \<not> lt y x"
    and ntrans: "\<And>x y z. \<not> lt x y \<Longrightarrow> \<not> lt y z \<Longrightarrow> \<not> lt x z"
  shows "sorted_wrt (\<lambda>a b. \<not> lt a b) acc
     \<Longrightarrow> sorted_wrt (\<lambda>a b. \<not> lt a b) (foldl (\<lambda>sortedRev x. insertLeft lt x sortedRev) acc xs)"
proof (induction xs arbitrary: acc)
  case Nil
  then show ?case by simp
next
  case (Cons x xs)
  have "sorted_wrt (\<lambda>a b. \<not> lt a b) (insertLeft lt x acc)"
    using asym ntrans Cons.prems by (rule sorted_insertLeft)
  then show ?case by (simp add: Cons.IH)
qed

lemma insertionSort_meets_contract:
  assumes asym: "\<And>x y. lt x y \<Longrightarrow> \<not> lt y x"
    and ntrans: "\<And>x y z. \<not> lt x y \<Longrightarrow> \<not> lt y z \<Longrightarrow> \<not> lt x z"
  shows "sort_Slice_post insertionSort lt xs"
proof -
  have "sorted_wrt (\<lambda>a b. \<not> lt a b) (foldl (\<lambda>sortedRev x. insertLeft lt x sortedRev) [] xs)"
    by (rule sorted_insertion_fold [OF asym ntrans]) simp_all
  then have "sorted_wrt (\<lambda>x y. \<not> lt y x) (insertionSort lt xs)"
    by (simp add: insertionSort_def sorted_wrt_rev)
  then show ?thesis by (simp add: sort_Slice_post_def mset_insertionSort)
qed

lemma reversingSort_meets_contract:
  assumes asym: "\<And>x y. lt x y \<Longrightarrow> \<not> lt y x"
    and ntrans: "\<And>x y z. \<not> lt x y \<Longrightarrow> \<not> lt y z \<Longrightarrow> \<not> lt x z"
  shows "sort_Slice_post reversingSort lt xs"
proof -
  have "sort_Slice_post insertionSort lt (rev xs)"
    using asym ntrans by (rule insertionSort_meets_contract)
  then show ?thesis by (simp add: sort_Slice_post_def reversingSort_def)
qed

lemma bySimilarity_real_contract:
  "sort_Slice_post insertionSort (bySimilarity real_arith) xs"
  "sort_Slice_post reversingSort (bySimilarity real_arith) xs"
proof -
  have asym: "bySimilarity real_arith x y \<Longrightarrow> \<not> bySimilarity real_arith y x" for x y
    by (simp add: bySimilarity_def real_arith_def)
  have ntrans: "\<not> bySimilarity real_arith x y \<Longrightarrow> \<not> bySimilarity real_arith y z
      \<Longrightarrow> \<not> bySimilarity real_arith x z" for x y z
    by (simp add: bySimilarity_def real_arith_def)
  show "sort_Slice_post insertionSort (bySimilarity real_arith) xs"
    using asym ntrans by (rule insertionSort_meets_contract)
  show "sort_Slice_post reversingSort (bySimilarity real_arith) xs"
    using asym ntrans by (rule reversingSort_meets_contract)
qed

section \<open>Properties of retrieval\<close>

lemma sqrt_100: "sqrt 100 = 10"
  by (rule real_sqrt_unique) simp_all



lemma scoreChunks_chunks: "map Chunk (scoreChunks a q cs) = filter (relevant a q) cs"
  by (induction cs) (auto simp add: relevant_def split: sum.splits)






lemmas rag_eval = GetRelevantContext_def GetEmbedding_def rankChunks_def CosineSimilarity_def
  dotProduct_def magnitude_def real_arith_def sqrt_100 insertionSort_def reversingSort_def
  bySimilarity_def NumRelevantChunks_def TrimSpace_def isSpace_def newline_def joinTop_def
  sort_Slice_post_def chunk_def env0_def world0_def







text \<open>
  Claim C7.  With an empty index the context is empty, there is no error and nothing is
  called.  With an index none of whose chunks is relevant to the embedding of the query
  the context is empty and there is no error (the sort being given an empty slice).
\<close>

theorem GetRelevantContext_no_context:
  "(dataChunks e = [] \<longrightarrow> GetRelevantContext e w query = (Inr [], w))
   \<and> (dataChunks e \<noteq> [] \<and> GetEmbedding e w query = (Inr q, w1)
        \<and> (\<forall>c\<in>set (dataChunks e). \<not> relevant (float32 e) q c)
        \<and> sort_Slice e (bySimilarity (float32 e)) [] = []
      \<longrightarrow> GetRelevantContext e w query = (Inr [], w1))"
proof -
  have "scoreChunks (float32 e) q (dataChunks e) = []"
    if "\<forall>c\<in>set (dataChunks e). \<not> relevant (float32 e) q c"
  proof -
    from that have "filter (relevant (float32 e) q) (dataChunks e) = []" by simp
    then have "map Chunk (scoreChunks (float32 e) q (dataChunks e)) = []"
      by (simp only: scoreChunks_chunks)
    then show ?thesis by simp
  qed
  then show ?thesis
    by (auto simp add: GetRelevantContext_def rankChunks_def)
qed

theorem GetRelevantContext_no_context_witness:
  "GetRelevantContext env0 world0 ''q'' = (Inr [], world0)
   \<and> CosineSimilarity real_arith [1, 0, 0, 0] [1, 9, 3, 3] = Inr (1 / 10)
   \<and> GetRelevantContext env_sky world0 ''q'' = (Inr [], world0\<lparr>gateway_log := [EmbedCall ''q'']\<rparr>)"
proof -
  have emb: "GetEmbedding env_sky world0 ''q''
     = (Inr [1, 0, 0, 0], world0\<lparr>gateway_log := [EmbedCall ''q'']\<rparr>)"
    by (simp add: env_sky_def rag_eval)
  have none: "\<forall>c\<in>set (dataChunks env_sky). \<not> relevant (float32 env_sky) [1, 0, 0, 0] c"
    by (simp add: env_sky_def relevant_def rag_eval)
  have srt: "sort_Slice env_sky (bySimilarity (float32 env_sky)) [] = []"
    by (simp add: env_sky_def rag_eval)
  have ne: "dataChunks env_sky \<noteq> []" by (simp add: env_sky_def rag_eval)
  have e0: "dataChunks env0 = []" by (simp add: env0_def)
  have sim: "CosineSimilarity real_arith [1, 0, 0, 0] [1, 9, 3, 3] = Inr (1 / 10)"
    by (simp add: rag_eval)
  from GetRelevantContext_no_context [of env0 world0 "''q''"]
       GetRelevantContext_no_context [of env_sky world0 "''q''" "[1, 0, 0, 0]" "world0\<lparr>gateway_log := [EmbedCall ''q'']\<rparr>"]
       emb none srt ne e0 sim
  show ?thesis by (simp add: env_sky_def chunk_def env0_def)
qed


section \<open>Properties of the chat service\<close>

lemmas chat_eval = PostMessage_def GetChatByID_def CreateMessage_def GenerateResponse_def
  GetLastNMessagesByChatID_def GetRelevantContext_def GetChatCompletion_def db_call_def new_uuid_def
  now_def new_message_def maybe_spawn_title_def spawn_title_def env0_def world0_def Let_def
  CreateChat_def store_CreateChat_def

lemma find_None_owner:
  "\<forall>c\<in>set cs. \<not> (cID c = chatID \<and> cUserID c = userID)
     \<Longrightarrow> find (\<lambda>c. cID c = chatID \<and> cUserID c = userID) cs = None"
  by (simp add: find_None_iff)

text \<open>
  Claim C5.  When the lookup of the chat answers and no chat with that identifier belongs
  to the user, \<open>PostMessage\<close> fails with the error \<open>chat not found\<close> and the world is the
  one before with one more database call counted: no table has changed, no gateway was
  called, no title derivation was started.
\<close>

theorem PostMessage_chat_not_found:
  assumes "\<not> db_fault e (db_calls w)"
    and "\<forall>c\<in>set (chats w). \<not> (cID c = chatID \<and> cUserID c = userID)"
  shows "PostMessage e w chatID userID userContent = (Inl ChatNotFound, w\<lparr>db_calls := Suc (db_calls w)\<rparr>)"
  using assms by (simp add: PostMessage_def GetChatByID_def db_call_def find_None_owner)

theorem PostMessage_chat_not_found_witness:
  "PostMessage env0 world0 ''c1'' 7 ''hi'' = (Inl ChatNotFound, world0\<lparr>db_calls := 1\<rparr>)
   \<and> PostMessage env0 world_chat ''c1'' 8 ''hi'' = (Inl ChatNotFound, world_chat\<lparr>db_calls := 1\<rparr>)"
  using PostMessage_chat_not_found [of env0 world0 "''c1''" 7 "''hi''"]
        PostMessage_chat_not_found [of env0 world_chat "''c1''" 8 "''hi''"]
  by (simp add: env0_def world0_def world_chat_def chat1_def)

text \<open>
  Claim C10.  \<open>CreateChat\<close> with no first message, or an empty one, stores no message,
  calls no gateway and starts no title derivation; when the two database calls of the
  insertion succeed it returns the new chat, without a title, and an empty list of
  messages, and the chat is in the table.
\<close>

theorem CreateChat_without_first_message:
  assumes "firstMessageContent = None \<or> firstMessageContent = Some []"
  shows "messages (snd (CreateChat e w userID firstMessageContent)) = messages w
       \<and> gateway_log (snd (CreateChat e w userID firstMessageContent)) = gateway_log w
       \<and> goroutines (snd (CreateChat e w userID firstMessageContent)) = goroutines w
       \<and> (\<not> db_fault e (db_calls w) \<and> \<not> db_fault e (Suc (db_calls w)) \<longrightarrow>
            fst (CreateChat e w userID firstMessageContent)
              = Inr (\<lparr>cID = uuid_NewString e (ticks w), cUserID = userID, cTitle = None,
                      cCreatedAt = time_Now e (Suc (ticks w))\<rparr>, [])
            \<and> chats (snd (CreateChat e w userID firstMessageContent))
              = chats w @ [\<lparr>cID = uuid_NewString e (ticks w), cUserID = userID, cTitle = None,
                            cCreatedAt = time_Now e (Suc (ticks w))\<rparr>])"
  using assms
  by (auto simp add: CreateChat_def store_CreateChat_def db_call_def new_uuid_def now_def Let_def)

theorem CreateChat_without_first_message_witness:
  "CreateChat env0 world0 7 None
     = (Inr (\<lparr>cID = ''u'', cUserID = 7, cTitle = None, cCreatedAt = 1\<rparr>, []),
        world0\<lparr>chats := [\<lparr>cID = ''u'', cUserID = 7, cTitle = None, cCreatedAt = 1\<rparr>],
               db_calls := 2, ticks := 2\<rparr>)
   \<and> fst (CreateChat env0 world0 7 (Some []))
     = Inr (\<lparr>cID = ''u'', cUserID = 7, cTitle = None, cCreatedAt = 1\<rparr>, [])"
proof -
  have w: "CreateChat env0 world0 7 None
     = (fst (CreateChat env0 world0 7 None),
        world0\<lparr>chats := [\<lparr>cID = ''u'', cUserID = 7, cTitle = None, cCreatedAt = 1\<rparr>],
               db_calls := 2, ticks := 2\<rparr>)"
    by (simp add: chat_eval)
  from CreateChat_without_first_message [of None env0 world0 7]
       CreateChat_without_first_message [of "Some []" env0 world0 7] w
  show ?thesis by (simp add: env0_def world0_def)
qed

lemma CreateMessage_ok:
  assumes "\<forall>n. \<not> db_fault e n"
  shows "fst (CreateMessage e w m)
           = (None, m\<lparr>mID := uuid_NewString e (ticks w), mTimestamp := time_Now e (Suc (ticks w))\<rparr>)"
    and "messages (snd (CreateMessage e w m))
           = messages w @ [m\<lparr>mID := uuid_NewString e (ticks w), mTimestamp := time_Now e (Suc (ticks w))\<rparr>]"
  using assms by (simp_all add: CreateMessage_def db_call_def new_uuid_def now_def Let_def)

lemma GetChatCompletion_user_turn:
  "GetChatCompletion e w (hist @ [\<lparr>Role = ''user'', Parts = ps\<rparr>]) =
     (let w' = w\<lparr>gateway_log := gateway_log w @ [ChatCall (hist @ [\<lparr>Role = ''user'', Parts = ps\<rparr>])]\<rparr>
      in case SendMessage e (length (gateway_log w)) (hist @ [\<lparr>Role = ''user'', Parts = ps\<rparr>]) of
           ApiError \<Rightarrow> (Inl SendMessageFailed, w')
         | ApiOk resp \<Rightarrow>
             if no_candidates resp then (Inr msg_no_candidates, w')
             else if no_text resp then (Inr msg_non_text, w')
             else (Inr (responseText (Parts (the (hd (the resp))))), w'))"
  by (simp add: GetChatCompletion_def no_candidates_def no_text_def Let_def
           split: api_result.splits option.splits list.splits)

lemma GetRelevantContext_messages: "messages (snd (GetRelevantContext e w q)) = messages w"
  by (auto simp add: GetRelevantContext_def GetEmbedding_def Let_def
           split: prod.splits sum.splits api_result.splits option.splits)

lemma GenerateResponse_messages: "messages (snd (GenerateResponse e w c u q)) = messages w"
proof -
  obtain r w2 where g: "GetRelevantContext e (snd (GetLastNMessagesByChatID e w c 5)) q = (r, w2)"
    by (cases "GetRelevantContext e (snd (GetLastNMessagesByChatID e w c 5)) q")
  have m1: "messages (snd (GetLastNMessagesByChatID e w c 5)) = messages w"
    by (simp add: GetLastNMessagesByChatID_def db_call_def)
  from g have m2: "messages w2 = messages w"
    using GetRelevantContext_messages [of e "snd (GetLastNMessagesByChatID e w c 5)" q] m1 by simp
  show ?thesis
    using g m2
    by (simp add: GenerateResponse_def GetChatCompletion_user_turn Let_def case_prod_beta
             split: api_result.splits)
qed

lemma GenerateResponse_result:
  assumes "\<forall>n p. SendMessage e n p = r"
  shows "fst (GenerateResponse e w c u q) =
     (case r of
        ApiError \<Rightarrow> Inl (FailedLLMCompletion SendMessageFailed)
      | ApiOk resp \<Rightarrow>
          if no_candidates resp then Inr msg_no_candidates
          else if no_text resp then Inr msg_non_text
          else Inr (responseText (Parts (the (hd (the resp))))))"
  using assms
  by (simp add: GenerateResponse_def GetChatCompletion_user_turn Let_def case_prod_beta
           split: api_result.splits)


lemma maybe_spawn_title_messages: "messages (maybe_spawn_title e w chat chatID userID) = messages w"
  by (simp add: maybe_spawn_title_def GetLastNMessagesByChatID_def db_call_def spawn_title_def Let_def)

lemma GetChatByID_ok:
  assumes "\<not> db_fault e (db_calls w)"
  shows "GetChatByID e w chatID userID
     = (Inr (find (\<lambda>c. cID c = chatID \<and> cUserID c = userID) (chats w)), w\<lparr>db_calls := Suc (db_calls w)\<rparr>)"
  using assms by (simp add: GetChatByID_def db_call_def)

text \<open>
  Claim C4, as the code has it.  When the database does not fail, the chat belongs to the
  user and the generation gateway fails or gives no usable answer, \<open>PostMessage\<close> stores
  the message of the user and then a message of the model, and returns the latter.  Its
  content is a fixed apology, one for each case: the fallback of \<open>PostMessage\<close> when the
  call fails, the text of \<open>GetChatCompletion\<close> for an answer without candidate, content
  or part, and its other text for an answer without a text part.
\<close>

theorem PostMessage_canned_reply:
  assumes nf: "\<forall>n. \<not> db_fault e n"
    and owned: "\<exists>c\<in>set (chats w). cID c = chatID \<and> cUserID c = userID"
    and gw: "\<forall>n p. SendMessage e n p = r"
    and bad: "r = ApiError \<or> (\<exists>resp. r = ApiOk resp \<and> (no_candidates resp \<or> no_text resp))"
  shows "\<exists>um m w'. PostMessage e w chatID userID userContent = (Inr m, w')
           \<and> messages w' = messages w @ [um, m]
           \<and> mChatID um = chatID \<and> mSender um = ''user'' \<and> mContent um = userContent
           \<and> mChatID m = chatID \<and> mSender m = ''model''
           \<and> mContent m = (case r of ApiError \<Rightarrow> msg_fallback
                            | ApiOk resp \<Rightarrow> if no_candidates resp then msg_no_candidates
                                            else msg_non_text)"
proof -
  from owned obtain chat where
    found: "find (\<lambda>c. cID c = chatID \<and> cUserID c = userID) (chats w) = Some chat"
    by (cases "find (\<lambda>c. cID c = chatID \<and> cUserID c = userID) (chats w)")
       (auto simp add: find_None_iff)
  let ?w1 = "w\<lparr>db_calls := Suc (db_calls w)\<rparr>"
  from nf found have s1: "GetChatByID e w chatID userID = (Inr (Some chat), ?w1)"
    by (simp add: GetChatByID_ok)
  let ?um0 = "new_message chatID ''user'' userContent"
  obtain um w2 where s2: "CreateMessage e ?w1 ?um0 = ((None, um), w2)"
    and um: "um = ?um0\<lparr>mID := uuid_NewString e (ticks ?w1), mTimestamp := time_Now e (Suc (ticks ?w1))\<rparr>"
    and m2: "messages w2 = messages w @ [um]"
    using CreateMessage_ok [OF nf, of ?w1 ?um0]
    by (cases "CreateMessage e ?w1 ?um0") auto
  obtain gen w3 where s3: "GenerateResponse e w2 chatID userID userContent = (gen, w3)"
    by (cases "GenerateResponse e w2 chatID userID userContent")
  from s3 have m3: "messages w3 = messages w2"
    using GenerateResponse_messages [of e w2 chatID userID userContent] by simp
  let ?content = "case gen of Inl err \<Rightarrow> msg_fallback | Inr c \<Rightarrow> c"
  from s3 bad have content: "?content = (case r of ApiError \<Rightarrow> msg_fallback
                            | ApiOk resp \<Rightarrow> if no_candidates resp then msg_no_candidates
                                            else msg_non_text)"
    using GenerateResponse_result [OF gw, of w2 chatID userID userContent] by auto
  let ?mm0 = "new_message chatID ''model'' ?content"
  obtain m w4 where s4: "CreateMessage e w3 ?mm0 = ((None, m), w4)"
    and mm: "m = ?mm0\<lparr>mID := uuid_NewString e (ticks w3), mTimestamp := time_Now e (Suc (ticks w3))\<rparr>"
    and m4: "messages w4 = messages w3 @ [m]"
    using CreateMessage_ok [OF nf, of w3 ?mm0]
    by (cases "CreateMessage e w3 ?mm0") auto
  let ?w5 = "maybe_spawn_title e w4 chat chatID userID"
  have res: "PostMessage e w chatID userID userContent = (Inr m, ?w5)"
    using s1 s2 s3 s4 by (simp add: PostMessage_def)
  have msgs: "messages ?w5 = messages w @ [um, m]"
    using m2 m3 m4 by (simp add: maybe_spawn_title_messages)
  from um have u: "mChatID um = chatID \<and> mSender um = ''user'' \<and> mContent um = userContent"
    by (simp add: new_message_def)
  from mm content have mo: "mChatID m = chatID \<and> mSender m = ''model''
      \<and> mContent m = (case r of ApiError \<Rightarrow> msg_fallback
                            | ApiOk resp \<Rightarrow> if no_candidates resp then msg_no_candidates
                                            else msg_non_text)"
    by (simp add: new_message_def)
  from res msgs u mo show ?thesis by blast
qed

theorem PostMessage_canned_reply_witness:
  "map mSender (messages (snd (PostMessage env_gateway_down world_chat ''c1'' 7 ''hi''))) = [''user'', ''model'']
   \<and> map mContent (messages (snd (PostMessage env_gateway_down world_chat ''c1'' 7 ''hi''))) = [''hi'', msg_fallback]
   \<and> map mContent (messages (snd (PostMessage env_no_candidates world_chat ''c1'' 7 ''hi''))) = [''hi'', msg_no_candidates]
   \<and> map mContent (messages (snd (PostMessage env_blob world_chat ''c1'' 7 ''hi''))) = [''hi'', msg_non_text]"
proof -
  have a: "\<forall>n. \<not> db_fault env_gateway_down n" "\<forall>n. \<not> db_fault env_no_candidates n" "\<forall>n. \<not> db_fault env_blob n"
    by (simp_all add: env_gateway_down_def env_no_candidates_def env_blob_def env0_def)
  have b: "\<exists>c\<in>set (chats world_chat). cID c = ''c1'' \<and> cUserID c = 7"
    by (simp add: world_chat_def chat1_def world0_def)
  have c1: "\<forall>n p. SendMessage env_gateway_down n p = ApiError"
    by (simp add: env_gateway_down_def env0_def)
  have c2: "\<forall>n p. SendMessage env_no_candidates n p = ApiOk (Some [])"
    by (simp add: env_no_candidates_def env0_def)
  have c3: "\<forall>n p. SendMessage env_blob n p = ApiOk (Some [Some \<lparr>Role = ''model'', Parts = [Blob]\<rparr>])"
    by (simp add: env_blob_def env0_def)
  have e: "messages world_chat = []" by (simp add: world_chat_def world0_def)
  have d2: "no_candidates (Some [])" by (simp add: no_candidates_def)
  have d3: "no_text (Some [Some \<lparr>Role = ''model'', Parts = [Blob]\<rparr>])"
    "\<not> no_candidates (Some [Some \<lparr>Role = ''model'', Parts = [Blob]\<rparr>])"
    by (simp_all add: no_text_def no_candidates_def)
  from PostMessage_canned_reply [OF a(1) b c1, of "''hi''"]
       PostMessage_canned_reply [OF a(2) b c2, of "''hi''"]
       PostMessage_canned_reply [OF a(3) b c3, of "''hi''"]
       d2 d3 e
  show ?thesis by auto
qed

text \<open>
  Claim C4 as stated names one fallback string for all cases.  For an answer without
  candidates the stored content is the apology of \<open>GetChatCompletion\<close>, which is not the
  fallback of \<open>PostMessage\<close>.
\<close>

theorem PostMessage_fallback_counterexample:
  "map mContent (messages (snd (PostMessage env_no_candidates world_chat ''c1'' 7 ''hi'')))
     = [''hi'', msg_no_candidates]
   \<and> msg_no_candidates \<noteq> msg_fallback"
  by (simp add: chat_eval env_no_candidates_def world_chat_def chat1_def msg_no_candidates_def msg_fallback_def)


text \<open>
  Claim C3, at a chat that holds a message \<open>a\<close> of the user (time 1) and an answer \<open>b\<close> of
  the model (time 2) when the user posts \<open>c\<close>.  The prompt sent to the generation gateway
  carries as history \<open>c\<close>, \<open>b\<close>, \<open>a\<close>: newest first, and starting with the message
  just posted, which the final turn repeats.
\<close>

theorem PostMessage_history_newest_first:
  "gateway_log (snd (PostMessage env0 world_hist ''c1'' 7 ''c'')) =
     [ChatCall [\<lparr>Role = ''user'', Parts = [Text ''c'']\<rparr>,
                \<lparr>Role = ''model'', Parts = [Text ''b'']\<rparr>,
                \<lparr>Role = ''user'', Parts = [Text ''a'']\<rparr>,
                \<lparr>Role = ''user'', Parts = [Text (prompt_without_context ''c'')]\<rparr>]]"
  by (simp add: chat_eval world_hist_def chat1_def)


section \<open>Properties of ingestion\<close>











end
